theory Spec2Isabelle
  imports Main "HOL-Library.Sublist"
begin

section \<open>The receiving side of a wormhole transfer (wormhole/cli/cmd_receive.py)\<close>

text \<open>
  The class \<open>TwistedReceiver\<close> drives three collaborators: the wormhole channel \<open>w\<close>, the
  transit receiver with the record pipe it connects, and the local file system. The model is
  a state-passing embedding: every method becomes a function from a state to a result and a
  new state. The state holds the attributes of \<open>self\<close>, the file system, the lines still to
  be read from standard input, and the chronological list of every call made to a
  collaborator. What the collaborators answer is an input of the model.

  A method whose name starts with an underscore is written without it (\<open>_get_data\<close> is
  \<open>get_data\<close>); \<open>_go\<close> is \<open>go_inner\<close>, and its loop is \<open>go_loop\<close>. Every \<open>raise\<close> and
  \<open>assert\<close> of the source is a result \<open>Raises\<close>, as are the errors of Python's own operations
  on the decoded messages (a missing key, a value of the wrong type, an attribute not set).

  Outside the model: the instrumentation (\<open>args.timing\<close>), the progress bar, and failures of
  the collaborators other than the three the source names (\<open>WormholeClosedError\<close>,
  \<open>WrongPasswordError\<close>, a short byte count): a call to the transit receiver, the record
  pipe or the file system returns.
\<close>

subsection \<open>Decoded JSON and Python's operations on it\<close>

text \<open>
  The value \<open>json.loads\<close> returns. A dict is an association list read with \<open>map_of\<close>
  (its keys are distinct). Numbers with a fraction, booleans and null are not modelled.
\<close>

datatype json = JStr string | JInt int | JList "json list" | JObj "(string \<times> json) list"

datatype error =
    TransferError json
  | RespondError string
  | WormholeClosedError
  | WrongPasswordError
  | KeyError string
  | TypeError
  | AttributeError
  | AssertionError
  | EOFError

text \<open>\<open>Suspends\<close>: the call waits for the peer for ever and the Deferred never fires.\<close>

datatype 'a result = Returns 'a | Raises error | Suspends

text \<open>\<open>key in v\<close>: keys of a dict, substring of a string, member of a list.\<close>

fun py_in :: "string \<Rightarrow> json \<Rightarrow> error + bool" where
  "py_in k (JObj kvs) = Inr (map_of kvs k \<noteq> None)"
| "py_in k (JStr s) = Inr (sublist k s)"
| "py_in k (JList xs) = Inr (JStr k \<in> set xs)"
| "py_in k (JInt n) = Inl TypeError"

text \<open>\<open>v[key]\<close> with a string key.\<close>

fun py_getitem :: "json \<Rightarrow> string \<Rightarrow> error + json" where
  "py_getitem (JObj kvs) k = (case map_of kvs k of None \<Rightarrow> Inl (KeyError k) | Some v \<Rightarrow> Inr v)"
| "py_getitem (JStr s) k = Inl TypeError"
| "py_getitem (JInt n) k = Inl TypeError"
| "py_getitem (JList xs) k = Inl TypeError"

text \<open>A value used where the source needs a string (\<open>os.path.basename\<close>) or a number (\<open>%d\<close>).\<close>

fun as_str :: "json \<Rightarrow> error + string" where
  "as_str (JStr s) = Inr s"
| "as_str (JInt n) = Inl TypeError"
| "as_str (JList xs) = Inl TypeError"
| "as_str (JObj kvs) = Inl TypeError"

fun as_int :: "json \<Rightarrow> error + int" where
  "as_int (JInt n) = Inr n"
| "as_int (JStr s) = Inl TypeError"
| "as_int (JList xs) = Inl TypeError"
| "as_int (JObj kvs) = Inl TypeError"

text \<open>Truth value of an optional string: \<open>None\<close> and the empty string are false.\<close>

fun truthy :: "string option \<Rightarrow> bool" where
  "truthy None = False"
| "truthy (Some s) = (s \<noteq> [])"

subsection \<open>Paths (os.path on POSIX)\<close>

text \<open>
  \<open>os.path.basename(p)\<close> is \<open>p[p.rfind('/')+1:]\<close>, the part after the last slash.
  \<open>os.path.join(a, b)\<close> is \<open>b\<close> when \<open>b\<close> starts with a slash, \<open>a + b\<close> when \<open>a\<close> is empty or
  ends with a slash, and \<open>a + '/' + b\<close> otherwise. \<open>os.path.exists\<close> is membership in the set
  of paths of the file system; paths are compared as written.
\<close>

definition basename :: "string \<Rightarrow> string" where
  "basename p = rev (takeWhile (\<lambda>c. c \<noteq> CHR ''/'') (rev p))"

fun startswith_slash :: "string \<Rightarrow> bool" where
  "startswith_slash [] = False"
| "startswith_slash (c # cs) = (c = CHR ''/'')"

definition endswith_slash :: "string \<Rightarrow> bool" where
  "endswith_slash p = (p \<noteq> [] \<and> last p = CHR ''/'')"

definition path_join :: "string \<Rightarrow> string \<Rightarrow> string" where
  "path_join a b =
     (if startswith_slash b then b
      else if a = [] \<or> endswith_slash a then a @ b
      else a @ ''/'' @ b)"

subsection \<open>Arguments, collaborators, state\<close>

text \<open>The fields of \<open>args\<close> the receiver reads.\<close>

record args =
  tor :: bool
  code :: "string option"
  zeromode :: bool
  code_length :: nat
  verify :: bool
  output_file :: "string option"
  cwd :: string
  accept_file :: bool

text \<open>
  What the collaborators answer: \<open>w.verify()\<close> (\<open>None\<close>: it raises \<open>WrongPasswordError\<close>),
  \<open>w.derive_key\<close>, the constant \<open>TRANSIT_KEY_LENGTH\<close> of the transit module, the receiver's
  own hints, \<open>record_pipe.describe()\<close> and the byte count \<open>record_pipe.writeToFile\<close> returns.
\<close>

record env =
  verifier :: "string option"
  transit_key :: string
  transit_key_length :: nat
  own_direct_hints :: json
  own_relay_hints :: json
  pipe_description :: string
  received :: int

text \<open>
  One result of \<open>w.get()\<close>: a message, given as the value \<open>json.loads\<close> decodes it to, or one
  of the two errors it raises.
\<close>

datatype get_result = Got json | Closed | WrongPassword

text \<open>The file object a transfer writes to.\<close>

datatype fileobj = TmpFile string | Spooled

text \<open>
  Calls to the outside, in the order they are made. \<open>Msg fmt xs\<close> is
  \<open>self.msg(fmt % xs)\<close>, \<open>MsgValue v\<close> is \<open>self.msg(v)\<close>.
\<close>

datatype event =
    TorStart
  | SetCode string
  | InputCode string nat
  | Verify
  | Get
  | Send json
  | Close
  | Msg string "json list"
  | MsgValue json
  | Stderr string
  | LogMsg string "json list"
  | Input string
  | TransitReceiverNew
  | DeriveKey string nat
  | SetTransitKey string
  | AddTheirDirectHints json
  | AddTheirRelayHints json
  | GetDirectHints
  | GetRelayHints
  | Connect
  | OpenWb string
  | SpooledTemporaryFile
  | Describe
  | WriteToFile fileobj int
  | FileClose fileobj
  | Rename string string
  | ExtractAll string
  | SendRecord string
  | PipeClose

record state =
  trace :: "event list"
  fs :: "string set"
  stdin :: "string list"
  transit_receiver :: bool
  abs_destname :: "string option"
  xfersize :: "int option"

definition init_state :: "string set \<Rightarrow> string list \<Rightarrow> state" where
  "init_state files answers =
     \<lparr>trace = [], fs = files, stdin = answers, transit_receiver = False,
      abs_destname = None, xfersize = None\<rparr>"

subsection \<open>Sequencing\<close>

definition return :: "'a \<Rightarrow> state \<Rightarrow> 'a result \<times> state" where
  "return x st = (Returns x, st)"

definition raise :: "error \<Rightarrow> state \<Rightarrow> 'a result \<times> state" where
  "raise err st = (Raises err, st)"

definition lift :: "error + 'a \<Rightarrow> state \<Rightarrow> 'a result \<times> state" where
  "lift r st = (case r of Inl err \<Rightarrow> (Raises err, st) | Inr x \<Rightarrow> (Returns x, st))"

definition emit :: "event \<Rightarrow> state \<Rightarrow> unit result \<times> state" where
  "emit ev st = (Returns (), st\<lparr>trace := trace st @ [ev]\<rparr>)"

definition andthen ::
  "(state \<Rightarrow> 'a result \<times> state) \<Rightarrow> ('a \<Rightarrow> state \<Rightarrow> 'b result \<times> state) \<Rightarrow>
   state \<Rightarrow> 'b result \<times> state" where
  "andthen m f st =
     (case m st of
        (Returns x, st') \<Rightarrow> f x st'
      | (Raises err, st') \<Rightarrow> (Raises err, st')
      | (Suspends, st') \<Rightarrow> (Suspends, st'))"

subsection \<open>The wormhole channel: sending, receiving, code and verifier\<close>

definition APPID :: string where
  "APPID = ''lothar.com/wormhole/text-or-file-xfer''"

text \<open>\<open>_send_data\<close>: \<open>w.send(json.dumps(data).encode("utf-8"))\<close>.\<close>

definition send_data :: "json \<Rightarrow> state \<Rightarrow> unit result \<times> state" where
  "send_data d = emit (Send d)"

text \<open>\<open>_get_data\<close>, on what \<open>w.get()\<close> yields.\<close>

definition get_data :: "get_result \<Rightarrow> state \<Rightarrow> json result \<times> state" where
  "get_data g =
     andthen (emit Get) (\<lambda>_.
       case g of
         Closed \<Rightarrow> raise WormholeClosedError
       | WrongPassword \<Rightarrow> raise WrongPasswordError
       | Got them_d \<Rightarrow>
           andthen (lift (py_in ''error'' them_d)) (\<lambda>has_error.
             if has_error
             then andthen (lift (py_getitem them_d ''error'')) (\<lambda>v. raise (TransferError v))
             else return them_d))"

definition handle_code :: "args \<Rightarrow> state \<Rightarrow> unit result \<times> state" where
  "handle_code a =
     (if zeromode a \<and> truthy (code a) then raise AssertionError
      else
        (case (if zeromode a then Some ''0-'' else code a) of
           None \<Rightarrow> emit (InputCode ''Enter receive wormhole code: '' (code_length a))
         | Some c \<Rightarrow>
             if c \<noteq> [] then emit (SetCode c)
             else emit (InputCode ''Enter receive wormhole code: '' (code_length a))))"

text \<open>\<open>binascii.hexlify\<close>.\<close>

definition hexdigit :: "nat \<Rightarrow> char" where
  "hexdigit n = ''0123456789abcdef'' ! n"

definition hexlify :: "string \<Rightarrow> string" where
  "hexlify bs = concat (map (\<lambda>c. [hexdigit (of_char c div 16), hexdigit (of_char c mod 16)]) bs)"

definition show_verifier :: "args \<Rightarrow> string \<Rightarrow> state \<Rightarrow> unit result \<times> state" where
  "show_verifier a v =
     (if verify a then emit (Msg ''Verifier %s.'' [JStr (hexlify v)]) else return ())"

text \<open>\<open>verifier = yield w.verify()\<close>.\<close>

definition w_verify :: "env \<Rightarrow> state \<Rightarrow> string result \<times> state" where
  "w_verify e =
     andthen (emit Verify) (\<lambda>_.
       case verifier e of None \<Rightarrow> raise WrongPasswordError | Some v \<Rightarrow> return v)"

subsection \<open>Transit hints\<close>

text \<open>
  \<open>_build_transit\<close>: the receiver is made and kept in \<open>self._transit_receiver\<close>, given the
  transit key and the peer's hints, and its own hints are sent back.
\<close>

definition build_transit :: "env \<Rightarrow> json \<Rightarrow> state \<Rightarrow> unit result \<times> state" where
  "build_transit e sender_hints =
     andthen (emit TransitReceiverNew) (\<lambda>_.
     andthen (\<lambda>st. (Returns (), st\<lparr>transit_receiver := True\<rparr>)) (\<lambda>_.
     andthen (emit (DeriveKey (APPID @ ''/transit-key'') (transit_key_length e))) (\<lambda>_.
     andthen (emit (SetTransitKey (transit_key e))) (\<lambda>_.
     andthen (lift (py_getitem sender_hints ''direct_connection_hints'')) (\<lambda>dh.
     andthen (emit (AddTheirDirectHints dh)) (\<lambda>_.
     andthen (lift (py_getitem sender_hints ''relay_connection_hints'')) (\<lambda>rh.
     andthen (emit (AddTheirRelayHints rh)) (\<lambda>_.
     andthen (emit GetDirectHints) (\<lambda>_.
     andthen (emit GetRelayHints) (\<lambda>_.
     send_data (JObj [(''transit'',
       JObj [(''direct_connection_hints'', own_direct_hints e),
             (''relay_connection_hints'', own_relay_hints e)])])))))))))))"

text \<open>\<open>_parse_transit\<close>: only the first transit message builds the receiver.\<close>

definition parse_transit :: "env \<Rightarrow> json \<Rightarrow> state \<Rightarrow> unit result \<times> state" where
  "parse_transit e sender_hints st =
     (if transit_receiver st then return () st else build_transit e sender_hints st)"

subsection \<open>Destination and permission\<close>

definition decide_destname :: "args \<Rightarrow> string \<Rightarrow> string \<Rightarrow> state \<Rightarrow> string result \<times> state" where
  "decide_destname a mode destname0 st =
     (let destname1 = basename destname0;
          destname = (case output_file a of
                        None \<Rightarrow> destname1
                      | Some out \<Rightarrow> if out \<noteq> [] then out else destname1);
          abs_dest = path_join (cwd a) destname
      in if abs_dest \<in> fs st
         then andthen
                (emit (Msg ''Error: refusing to overwrite existing %s %s'' [JStr mode, JStr destname]))
                (\<lambda>_. raise (RespondError (mode @ '' already exists''))) st
         else return abs_dest st)"

text \<open>\<open>six.moves.input(prompt)\<close>: the next line of standard input, \<open>EOFError\<close> at its end.\<close>

definition input :: "string \<Rightarrow> state \<Rightarrow> string result \<times> state" where
  "input prompt st =
     (case stdin st of
        [] \<Rightarrow> (Raises EOFError, st\<lparr>trace := trace st @ [Input prompt]\<rparr>)
      | l # ls \<Rightarrow> (Returns l, st\<lparr>trace := trace st @ [Input prompt], stdin := ls\<rparr>))"

text \<open>\<open>ok.lower().startswith("y")\<close>.\<close>

fun lower_startswith_y :: "string \<Rightarrow> bool" where
  "lower_startswith_y [] = False"
| "lower_startswith_y (c # cs) = (c = CHR ''y'' \<or> c = CHR ''Y'')"

text \<open>
  The body of the \<open>while\<close> is left on every path, by \<open>break\<close> or by \<open>raise\<close>, so it runs at
  most once.
\<close>

definition ask_permission :: "args \<Rightarrow> state \<Rightarrow> unit result \<times> state" where
  "ask_permission a =
     (if \<not> accept_file a
      then andthen (input ''ok? (y/n): '') (\<lambda>ok.
             if lower_startswith_y ok then return ()
             else andthen (emit (Stderr ''transfer rejected''))
                    (\<lambda>_. raise (RespondError ''transfer rejected'')))
      else return ())"

text \<open>\<open>_send_permission\<close>.\<close>

definition send_permission :: "state \<Rightarrow> unit result \<times> state" where
  "send_permission = send_data (JObj [(''answer'', JObj [(''file_ack'', JStr ''ok'')])])"

subsection \<open>Offers\<close>

definition handle_text :: "json \<Rightarrow> state \<Rightarrow> unit result \<times> state" where
  "handle_text them_d =
     andthen (lift (py_getitem them_d ''message'')) (\<lambda>m.
     andthen (emit (MsgValue m)) (\<lambda>_.
     send_data (JObj [(''answer'', JObj [(''message_ack'', JStr ''ok'')])])))"

text \<open>\<open>open(tmp_destname, "wb")\<close> creates the file.\<close>

definition open_wb :: "string \<Rightarrow> state \<Rightarrow> fileobj result \<times> state" where
  "open_wb name st =
     (Returns (TmpFile name), st\<lparr>trace := trace st @ [OpenWb name], fs := insert name (fs st)\<rparr>)"

definition handle_file :: "args \<Rightarrow> json \<Rightarrow> state \<Rightarrow> fileobj result \<times> state" where
  "handle_file a them_d =
     andthen (lift (py_getitem them_d ''file'')) (\<lambda>file_data.
     andthen (lift (py_getitem file_data ''filename'')) (\<lambda>fn.
     andthen (lift (as_str fn)) (\<lambda>name.
     andthen (decide_destname a ''file'' name) (\<lambda>d.
     andthen (\<lambda>st. (Returns (), st\<lparr>abs_destname := Some d\<rparr>)) (\<lambda>_.
     andthen (lift (py_getitem file_data ''filesize'')) (\<lambda>sz.
     andthen (lift (as_int sz)) (\<lambda>n.
     andthen (\<lambda>st. (Returns (), st\<lparr>xfersize := Some n\<rparr>)) (\<lambda>_.
     andthen (emit (Msg ''Receiving file (%d bytes) into: %s'' [JInt n, JStr (basename d)])) (\<lambda>_.
     andthen (ask_permission a) (\<lambda>_.
     open_wb (d @ ''.tmp'')))))))))))"

definition handle_directory :: "args \<Rightarrow> json \<Rightarrow> state \<Rightarrow> fileobj result \<times> state" where
  "handle_directory a them_d =
     andthen (lift (py_getitem them_d ''directory'')) (\<lambda>file_data.
     andthen (lift (py_getitem file_data ''mode'')) (\<lambda>zipmode.
     if zipmode \<noteq> JStr ''zipfile/deflated''
     then andthen (emit (Msg (''Error: unknown directory-transfer mode '' @ [CHR 0x27] @ ''%s'' @ [CHR 0x27])
                     [zipmode]))
            (\<lambda>_. raise (RespondError ''unknown mode''))
     else
     andthen (lift (py_getitem file_data ''dirname'')) (\<lambda>dn.
     andthen (lift (as_str dn)) (\<lambda>name.
     andthen (decide_destname a ''directory'' name) (\<lambda>d.
     andthen (\<lambda>st. (Returns (), st\<lparr>abs_destname := Some d\<rparr>)) (\<lambda>_.
     andthen (lift (py_getitem file_data ''zipsize'')) (\<lambda>sz.
     andthen (lift (as_int sz)) (\<lambda>n.
     andthen (\<lambda>st. (Returns (), st\<lparr>xfersize := Some n\<rparr>)) (\<lambda>_.
     andthen (emit (Msg ''Receiving directory (%d bytes) into: %s/'' [JInt n, JStr (basename d)])) (\<lambda>_.
     andthen (lift (py_getitem file_data ''numfiles'')) (\<lambda>nf.
     andthen (lift (py_getitem file_data ''numbytes'')) (\<lambda>nb.
     andthen (lift (as_int nf)) (\<lambda>numfiles.
     andthen (lift (as_int nb)) (\<lambda>numbytes.
     andthen (emit (Msg ''%d files, %d bytes (uncompressed)'' [JInt numfiles, JInt numbytes])) (\<lambda>_.
     andthen (ask_permission a) (\<lambda>_.
     andthen (emit SpooledTemporaryFile) (\<lambda>_.
     return Spooled)))))))))))))))))"

subsection \<open>The bulk transfer\<close>

text \<open>\<open>_establish_transit\<close>: \<open>self._transit_receiver\<close> is \<open>None\<close> until a transit message came.\<close>

definition establish_transit :: "state \<Rightarrow> unit result \<times> state" where
  "establish_transit st =
     (if transit_receiver st then emit Connect st else raise AttributeError st)"

text \<open>
  \<open>_transfer_data\<close>: one \<open>writeToFile\<close> of \<open>self.xfersize\<close> bytes, then the comparison of
  the count it returns, and the \<open>assert\<close>.
\<close>

definition transfer_data :: "env \<Rightarrow> fileobj \<Rightarrow> state \<Rightarrow> unit result \<times> state" where
  "transfer_data e f =
     andthen (emit Describe) (\<lambda>_.
     andthen (emit (Msg ''Receiving (%s)..'' [JStr (pipe_description e)])) (\<lambda>_.
     andthen (\<lambda>st. case xfersize st of
                      None \<Rightarrow> (Raises AttributeError, st)
                    | Some n \<Rightarrow> (Returns n, st)) (\<lambda>n.
     andthen (emit (WriteToFile f n)) (\<lambda>_.
     if received e < n
     then andthen (emit (Msg [] [])) (\<lambda>_.
          andthen (emit (Msg ''Connection dropped before full file received'' [])) (\<lambda>_.
          andthen (emit (Msg ''got %d bytes, wanted %d'' [JInt (received e), JInt n])) (\<lambda>_.
          raise (TransferError (JStr ''Connection dropped before full file received'')))))
     else if received e = n then return ()
     else raise AssertionError))))"

text \<open>\<open>self.abs_destname\<close>, an \<open>AttributeError\<close> while it is not set.\<close>

definition get_abs_destname :: "state \<Rightarrow> string result \<times> state" where
  "get_abs_destname st =
     (case abs_destname st of None \<Rightarrow> (Raises AttributeError, st) | Some d \<Rightarrow> (Returns d, st))"

text \<open>\<open>os.rename(src, dst)\<close>.\<close>

definition rename :: "string \<Rightarrow> string \<Rightarrow> state \<Rightarrow> unit result \<times> state" where
  "rename src dst st =
     (Returns (), st\<lparr>trace := trace st @ [Rename src dst], fs := insert dst (fs st - {src})\<rparr>)"

definition write_file :: "fileobj \<Rightarrow> state \<Rightarrow> unit result \<times> state" where
  "write_file f =
     (case f of
        Spooled \<Rightarrow> raise AttributeError
      | TmpFile tmp_name \<Rightarrow>
          andthen (emit (FileClose f)) (\<lambda>_.
          andthen get_abs_destname (\<lambda>d.
          andthen (rename tmp_name d) (\<lambda>_.
          emit (Msg ''Received file written to %s'' [JStr (basename d)])))))"

text \<open>
  \<open>zf.extractall(path=self.abs_destname)\<close>: the archive is handed to the library whole,
  with the destination as its root; the directory exists afterwards.
\<close>

definition extractall :: "string \<Rightarrow> state \<Rightarrow> unit result \<times> state" where
  "extractall d st =
     (Returns (), st\<lparr>trace := trace st @ [ExtractAll d], fs := insert d (fs st)\<rparr>)"

definition write_directory :: "fileobj \<Rightarrow> state \<Rightarrow> unit result \<times> state" where
  "write_directory f =
     andthen (emit (Msg ''Unpacking zipfile..'' [])) (\<lambda>_.
     andthen get_abs_destname (\<lambda>d.
     andthen (extractall d) (\<lambda>_.
     andthen (emit (Msg ''Received files written to %s/'' [JStr (basename d)])) (\<lambda>_.
     emit (FileClose f)))))"

definition close_transit :: "state \<Rightarrow> unit result \<times> state" where
  "close_transit =
     andthen (emit (SendRecord (''ok'' @ [CHR 0x0A]))) (\<lambda>_. emit PipeClose)"

definition parse_offer :: "args \<Rightarrow> env \<Rightarrow> json \<Rightarrow> state \<Rightarrow> unit result \<times> state" where
  "parse_offer a e them_d =
     andthen (lift (py_in ''message'' them_d)) (\<lambda>is_message.
     if is_message then handle_text them_d
     else
     andthen (lift (py_in ''file'' them_d)) (\<lambda>is_file.
     if is_file then
       andthen (handle_file a them_d) (\<lambda>f.
       andthen send_permission (\<lambda>_.
       andthen establish_transit (\<lambda>_.
       andthen (transfer_data e f) (\<lambda>_.
       andthen (write_file f) (\<lambda>_.
       close_transit)))))
     else
     andthen (lift (py_in ''directory'' them_d)) (\<lambda>is_directory.
     if is_directory then
       andthen (handle_directory a them_d) (\<lambda>f.
       andthen send_permission (\<lambda>_.
       andthen establish_transit (\<lambda>_.
       andthen (transfer_data e f) (\<lambda>_.
       andthen (write_directory f) (\<lambda>_.
       close_transit)))))
     else
       andthen (emit (Msg (''I don'' @ [CHR 0x27] @ ''t know what they'' @ [CHR 0x27]
                             @ ''re offering'' @ [CHR 0x0A]) [])) (\<lambda>_.
       andthen (emit (Msg ''Offer details: %r'' [them_d])) (\<lambda>_.
       raise (RespondError ''unknown offer type''))))))"

subsection \<open>The session\<close>

text \<open>
  The \<open>try\<close> around \<open>parse_offer\<close> in \<open>_go\<close>: a \<open>RespondError\<close> is sent to the peer and
  raised again as a \<open>TransferError\<close>.
\<close>

definition try_parse_offer :: "args \<Rightarrow> env \<Rightarrow> json \<Rightarrow> state \<Rightarrow> unit result \<times> state" where
  "try_parse_offer a e offer st =
     (case parse_offer a e offer st of
        (Raises (RespondError r), st') \<Rightarrow>
          andthen (send_data (JObj [(''error'', JStr r)]))
            (\<lambda>_. raise (TransferError (JStr r))) st'
      | other \<Rightarrow> other)"

text \<open>
  The \<open>while True\<close> of \<open>_go\<close>, with its two local variables; \<open>gs\<close> is what the successive
  calls of \<open>w.get()\<close> yield, and a call after the last of them never returns.
\<close>

fun go_loop ::
  "args \<Rightarrow> env \<Rightarrow> bool \<Rightarrow> bool \<Rightarrow> get_result list \<Rightarrow> state \<Rightarrow> unit result \<times> state" where
  "go_loop a e want_offer done [] st = (Suspends, st\<lparr>trace := trace st @ [Get]\<rparr>)"
| "go_loop a e want_offer done (g # gs) st =
     (case get_data g st of
        (Raises WormholeClosedError, st1) \<Rightarrow>
          if done then (Returns (), st1)
          else (Raises (TransferError (JStr ''unexpected close'')), st1)
      | (Raises err, st1) \<Rightarrow> (Raises err, st1)
      | (Suspends, st1) \<Rightarrow> (Suspends, st1)
      | (Returns them_d, st1) \<Rightarrow>
          (case py_in ''transit'' them_d of
             Inl err \<Rightarrow> (Raises err, st1)
           | Inr True \<Rightarrow>
               (case andthen (lift (py_getitem them_d ''transit'')) (parse_transit e) st1 of
                  (Returns u, st2) \<Rightarrow> go_loop a e want_offer done gs st2
                | (Raises err, st2) \<Rightarrow> (Raises err, st2)
                | (Suspends, st2) \<Rightarrow> (Suspends, st2))
           | Inr False \<Rightarrow>
               (case py_in ''offer'' them_d of
                  Inl err \<Rightarrow> (Raises err, st1)
                | Inr True \<Rightarrow>
                    if \<not> want_offer then (Raises (TransferError (JStr ''duplicate offer'')), st1)
                    else andthen (lift (py_getitem them_d ''offer'')) (try_parse_offer a e) st1
                | Inr False \<Rightarrow>
                    andthen (emit (LogMsg ''unrecognized message %r'' [them_d]))
                      (\<lambda>_. raise (TransferError (JStr ''expected offer, got none''))) st1)))"

text \<open>\<open>_go\<close>.\<close>

definition go_inner :: "args \<Rightarrow> env \<Rightarrow> get_result list \<Rightarrow> state \<Rightarrow> unit result \<times> state" where
  "go_inner a e gs =
     andthen (handle_code a) (\<lambda>_.
     andthen (w_verify e) (\<lambda>v.
     andthen (show_verifier a v) (\<lambda>_.
     go_loop a e True False gs)))"

text \<open>
  Modelled from the spec: \<open>w.close\<close>, of the wormhole module, is not among the sources. Added
  with \<open>addBoth\<close> it is called once when \<open>_go\<close> has fired, with the result or the failure,
  and what it returns becomes the result of \<open>go\<close>. The spec: the channel is closed "exactly
  once before returning/propagating", and "the close action itself must never mask the
  original outcome", so it returns what it was given.
\<close>

definition w_close :: "unit result \<Rightarrow> state \<Rightarrow> unit result \<times> state" where
  "w_close res st = (res, st\<lparr>trace := trace st @ [Close]\<rparr>)"

definition go :: "args \<Rightarrow> env \<Rightarrow> get_result list \<Rightarrow> state \<Rightarrow> unit result \<times> state" where
  "go a e gs =
     andthen (if tor a then emit TorStart else return ()) (\<lambda>_ st.
       case go_inner a e gs st of
         (Suspends, st') \<Rightarrow> (Suspends, st')
       | (res, st') \<Rightarrow> w_close res st')"

subsection \<open>Phases of a session\<close>

text \<open>
  The calls that touch neither a file nor the record pipe: the code, the verifier,
  \<open>w.get()\<close>, \<open>w.send\<close>, the transit hints, and what is printed to or read from the terminal.
  The rejection printed on standard error, the calls on files and on the pipe, and \<open>w.close\<close>
  are not among them.
\<close>

fun quiet_event :: "event \<Rightarrow> bool" where
  "quiet_event TorStart = True"
| "quiet_event (SetCode c) = True"
| "quiet_event (InputCode p n) = True"
| "quiet_event Verify = True"
| "quiet_event Get = True"
| "quiet_event (Send d) = True"
| "quiet_event (Msg f xs) = True"
| "quiet_event (MsgValue v) = True"
| "quiet_event (LogMsg f xs) = True"
| "quiet_event (Input p) = True"
| "quiet_event TransitReceiverNew = True"
| "quiet_event (DeriveKey p n) = True"
| "quiet_event (SetTransitKey k) = True"
| "quiet_event (AddTheirDirectHints h) = True"
| "quiet_event (AddTheirRelayHints h) = True"
| "quiet_event GetDirectHints = True"
| "quiet_event GetRelayHints = True"
| "quiet_event _ = False"

text \<open>
  \<open>handshake st st'\<close>: from \<open>st\<close> to \<open>st'\<close> only such calls were made, and the file system,
  standard input and the transfer's attributes are as they were.
\<close>

definition handshake :: "state \<Rightarrow> state \<Rightarrow> bool" where
  "handshake st st' \<longleftrightarrow>
     (\<exists>evs. trace st' = trace st @ evs \<and> list_all quiet_event evs) \<and>
     fs st' = fs st \<and> stdin st' = stdin st \<and>
     abs_destname st' = abs_destname st \<and> xfersize st' = xfersize st"

text \<open>
  The name \<open>decide_destname\<close> joins under the working directory: the override when one is
  configured, the stripped name of the peer otherwise.
\<close>

definition dest_choice :: "args \<Rightarrow> string \<Rightarrow> string" where
  "dest_choice a name =
     (case output_file a of
        None \<Rightarrow> basename name
      | Some out \<Rightarrow> if out \<noteq> [] then out else basename name)"

text \<open>
  \<open>quiet_until st st' last_events\<close>: from \<open>st\<close> to \<open>st'\<close> no file was touched and the
  destination, if one was chosen, did not exist; the calls made were quiet ones, followed by
  \<open>last_events\<close>.
\<close>

definition quiet_until :: "state \<Rightarrow> state \<Rightarrow> event list \<Rightarrow> bool" where
  "quiet_until st st' last_events \<longleftrightarrow>
     fs st' = fs st \<and>
     (abs_destname st' = abs_destname st \<or> (\<exists>d. abs_destname st' = Some d \<and> d \<notin> fs st)) \<and>
     (\<exists>evs. trace st' = trace st @ evs @ last_events \<and> list_all quiet_event evs)"

text \<open>
  The calls of a transfer up to the bulk write.
\<close>

definition transfer_events :: "env \<Rightarrow> fileobj \<Rightarrow> int \<Rightarrow> event list" where
  "transfer_events e f n =
     [Send (JObj [(''answer'', JObj [(''file_ack'', JStr ''ok'')])]), Connect, Describe,
      Msg ''Receiving (%s)..'' [JStr (pipe_description e)], WriteToFile f n]"

text \<open>
  What is printed when the bulk write came short.
\<close>

definition dropped_events :: "env \<Rightarrow> int \<Rightarrow> event list" where
  "dropped_events e n =
     [Msg [] [], Msg ''Connection dropped before full file received'' [],
      Msg ''got %d bytes, wanted %d'' [JInt (received e), JInt n]]"

text \<open>
  The calls of \<open>write_file\<close>, for the destination \<open>d\<close>.
\<close>

definition file_written :: "string \<Rightarrow> event list" where
  "file_written d =
     [FileClose (TmpFile (d @ ''.tmp'')), Rename (d @ ''.tmp'') d,
      Msg ''Received file written to %s'' [JStr (basename d)]]"

text \<open>
  The calls of \<open>write_directory\<close>, for the destination \<open>d\<close>.
\<close>

definition directory_written :: "string \<Rightarrow> event list" where
  "directory_written d =
     [Msg ''Unpacking zipfile..'' [], ExtractAll d,
      Msg ''Received files written to %s/'' [JStr (basename d)], FileClose Spooled]"

text \<open>
  The four ways the part of \<open>parse_offer\<close> after \<open>handle_file\<close> or \<open>handle_directory\<close> ends:
  no transit receiver, a short count, the advertised count, a count beyond it.
\<close>

definition bulk :: "env \<Rightarrow> bool \<Rightarrow> fileobj \<Rightarrow> event list \<Rightarrow> int \<Rightarrow> unit result \<times> event list" where
  "bulk e connected f written n =
     (if \<not> connected
      then (Raises AttributeError, [Send (JObj [(''answer'', JObj [(''file_ack'', JStr ''ok'')])])])
      else if received e < n
      then (Raises (TransferError (JStr ''Connection dropped before full file received'')),
            transfer_events e f n @ dropped_events e n)
      else if received e = n
      then (Returns (), transfer_events e f n @ written @ [SendRecord (''ok'' @ [CHR 0x0A]), PipeClose])
      else (Raises AssertionError, transfer_events e f n))"

text \<open>
  A file offer that got as far as opening the temporary file.
\<close>

definition offer_file :: "env \<Rightarrow> state \<Rightarrow> state \<Rightarrow> unit result \<Rightarrow> bool" where
  "offer_file e st st' r \<longleftrightarrow>
     (\<exists>d n evs. d \<notin> fs st \<and> list_all quiet_event evs \<and> abs_destname st' = Some d \<and>
        xfersize st' = Some n \<and>
        r = fst (bulk e (transit_receiver st) (TmpFile (d @ ''.tmp'')) (file_written d) n) \<and>
        trace st' = trace st @ evs @ [OpenWb (d @ ''.tmp'')] @
          snd (bulk e (transit_receiver st) (TmpFile (d @ ''.tmp'')) (file_written d) n) \<and>
        fs st' = (if r = Returns () then insert d (fs st - {d @ ''.tmp''})
                  else insert (d @ ''.tmp'') (fs st)))"

text \<open>
  A directory offer that got as far as the spooled temporary file.
\<close>

definition offer_directory :: "env \<Rightarrow> state \<Rightarrow> state \<Rightarrow> unit result \<Rightarrow> bool" where
  "offer_directory e st st' r \<longleftrightarrow>
     (\<exists>d n evs. d \<notin> fs st \<and> list_all quiet_event evs \<and> abs_destname st' = Some d \<and>
        xfersize st' = Some n \<and>
        r = fst (bulk e (transit_receiver st) Spooled (directory_written d) n) \<and>
        trace st' = trace st @ evs @ [SpooledTemporaryFile] @
          snd (bulk e (transit_receiver st) Spooled (directory_written d) n) \<and>
        fs st' = (if r = Returns () then insert d (fs st) else fs st))"

subsection \<open>A concrete session\<close>

definition example_args :: args where
  "example_args =
     \<lparr>tor = False, code = Some ''7-crossover-clockwork'', zeromode = False, code_length = 2,
      verify = True, output_file = None, cwd = ''/home/u'', accept_file = False\<rparr>"

definition example_env :: env where
  "example_env =
     \<lparr>verifier = Some ''ab'', transit_key = ''k'', transit_key_length = 32,
      own_direct_hints = JList [], own_relay_hints = JList [],
      pipe_description = ''direct'', received = 1024\<rparr>"

text \<open>
  The peer's messages: its transit hints, the offer of a file of 1024 bytes, the offer of a
  directory whose archive has 1024 bytes; and the calls of a session up to the second
  \<open>w.get()\<close>.
\<close>

definition example_transit :: json where
  "example_transit =
     JObj [(''transit'', JObj [(''direct_connection_hints'', JList []),
                               (''relay_connection_hints'', JList [])])]"

definition example_file_offer :: json where
  "example_file_offer =
     JObj [(''offer'', JObj [(''file'',
       JObj [(''filename'', JStr ''dir/foo.txt''), (''filesize'', JInt 1024)])])]"

definition example_directory_offer :: json where
  "example_directory_offer =
     JObj [(''offer'', JObj [(''directory'',
       JObj [(''mode'', JStr ''zipfile/deflated''), (''dirname'', JStr ''photos''),
             (''zipsize'', JInt 1024), (''numfiles'', JInt 3), (''numbytes'', JInt 4096)])])]"

definition example_handshake :: "event list" where
  "example_handshake =
     [SetCode ''7-crossover-clockwork'', Verify, Msg ''Verifier %s.'' [JStr ''6162''], Get,
      TransitReceiverNew, DeriveKey ''lothar.com/wormhole/text-or-file-xfer/transit-key'' 32,
      SetTransitKey ''k'', AddTheirDirectHints (JList []), AddTheirRelayHints (JList []),
      GetDirectHints, GetRelayHints,
      Send (JObj [(''transit'', JObj [(''direct_connection_hints'', JList []),
                                      (''relay_connection_hints'', JList [])])]),
      Get]"

section \<open>Properties\<close>

subsection \<open>Symbolic execution of the sequencing\<close>

named_theorems exec

lemma andthen_emit [exec]: "andthen (emit ev) f st = f () (st\<lparr>trace := trace st @ [ev]\<rparr>)"
  by (simp add: andthen_def emit_def)

lemma andthen_return [exec]: "andthen (return x) f st = f x st"
  by (simp add: andthen_def return_def)

lemma andthen_raise [exec]: "andthen (raise err) f st = (Raises err, st)"
  by (simp add: andthen_def raise_def)

lemma andthen_lift [exec]:
  "andthen (lift r) f st = (case r of Inl err \<Rightarrow> (Raises err, st) | Inr x \<Rightarrow> f x st)"
  by (simp add: andthen_def lift_def split: sum.splits)

lemma andthen_upd [exec]: "andthen (\<lambda>st. (Returns x, g st)) f st = f x (g st)"
  by (simp add: andthen_def)

lemma emit_apply [exec]: "emit ev st = (Returns (), st\<lparr>trace := trace st @ [ev]\<rparr>)"
  by (simp add: emit_def)

lemma return_apply [exec]: "return x st = (Returns x, st)"
  by (simp add: return_def)

lemma raise_apply [exec]: "raise err st = (Raises err, st)"
  by (simp add: raise_def)

lemma handshake_refl: "handshake st st"
  by (simp add: handshake_def)

lemma handshake_trans: "handshake st st1 \<Longrightarrow> handshake st1 st2 \<Longrightarrow> handshake st st2"
  by (auto simp: handshake_def)

lemma py_in_not_respond: "py_in k v \<noteq> Inl (RespondError r)"
  by (cases v) simp_all

lemma py_getitem_not_respond: "py_getitem v k \<noteq> Inl (RespondError r)"
  by (cases v) (simp_all split: option.splits)

lemma get_data_handshake:
  assumes "get_data g st = (r, st')"
  shows "handshake st st' \<and> r \<noteq> Suspends \<and> (\<forall>x. r \<noteq> Raises (RespondError x))"
  using assms py_in_not_respond py_getitem_not_respond
  by (cases g) (auto simp: get_data_def exec handshake_def split: sum.splits if_splits)

lemma build_transit_handshake:
  assumes "build_transit e h st = (r, st')"
  shows "handshake st st' \<and> r \<noteq> Suspends \<and> (\<forall>x. r \<noteq> Raises (RespondError x))"
  using assms py_getitem_not_respond
  by (auto simp: build_transit_def send_data_def exec handshake_def split: sum.splits)

lemma parse_transit_handshake:
  assumes "andthen (lift (py_getitem them_d ''transit'')) (parse_transit e) st = (r, st')"
  shows "handshake st st' \<and> r \<noteq> Suspends \<and> (\<forall>x. r \<noteq> Raises (RespondError x))"
proof (cases "py_getitem them_d ''transit''")
  case (Inl err)
  with assms py_getitem_not_respond [of them_d "''transit''"] show ?thesis
    by (auto simp: exec handshake_refl)
next
  case (Inr h)
  show ?thesis
  proof (cases "transit_receiver st")
    case True
    with assms Inr show ?thesis by (auto simp: exec parse_transit_def handshake_refl)
  next
    case False
    with assms Inr have "build_transit e h st = (r, st')"
      by (simp add: exec parse_transit_def)
    then show ?thesis by (rule build_transit_handshake)
  qed
qed


lemma handshake_get: "handshake st (st\<lparr>trace := trace st @ [Get]\<rparr>)"
  by (simp add: handshake_def)

lemma handshake_log: "handshake st (st\<lparr>trace := trace st @ [LogMsg f xs]\<rparr>)"
  by (simp add: handshake_def)

lemma go_loop_cases:
  assumes "go_loop a e True False gs st = (out, st')"
  shows "(handshake st st' \<and> out \<noteq> Returns () \<and> (\<forall>x. out \<noteq> Raises (RespondError x))) \<or>
         (\<exists>st1 offer. handshake st st1 \<and> try_parse_offer a e offer st1 = (out, st'))"
  using assms
proof (induction gs arbitrary: st)
  case Nil
  then show ?case by (auto simp: handshake_get)
next
  case (Cons g gs)
  obtain r st1 where g: "get_data g st = (r, st1)" by (cases "get_data g st")
  note h1 = get_data_handshake [OF g]
  show ?case
  proof (cases r)
    case Suspends
    with h1 show ?thesis by simp
  next
    case (Raises err)
    with Cons.prems g h1 show ?thesis
      by (cases err) auto
  next
    case (Returns them_d)
    show ?thesis
    proof (cases "py_in ''transit'' them_d")
      case (Inl err)
      with Cons.prems g Returns h1 py_in_not_respond [of "''transit''" them_d] show ?thesis
        by auto
    next
      case (Inr is_transit)
      show ?thesis
      proof (cases is_transit)
        case True
        obtain r2 st2 where t:
          "andthen (lift (py_getitem them_d ''transit'')) (parse_transit e) st1 = (r2, st2)"
          by (cases "andthen (lift (py_getitem them_d ''transit'')) (parse_transit e) st1")
        note h2 = parse_transit_handshake [OF t]
        from h1 h2 have h: "handshake st st2" by (blast intro: handshake_trans)
        show ?thesis
        proof (cases r2)
          case (Returns u)
          with Cons.prems g \<open>r = Returns them_d\<close> Inr True t
          have "go_loop a e True False gs st2 = (out, st')" by simp
          from Cons.IH [OF this] h show ?thesis
            by (blast intro: handshake_trans)
        next
          case (Raises err)
          with Cons.prems g \<open>r = Returns them_d\<close> Inr True t h h2 show ?thesis by auto
        next
          case Suspends
          with h2 show ?thesis by simp
        qed
      next
        case False
        note nt = False
        show ?thesis
        proof (cases "py_in ''offer'' them_d")
          case (Inl err)
          with Cons.prems g Returns Inr nt h1 py_in_not_respond [of "''offer''" them_d]
          show ?thesis by auto
        next
          case (Inr is_offer)
          note io = Inr
          show ?thesis
          proof (cases is_offer)
            case True
            show ?thesis
            proof (cases "py_getitem them_d ''offer''")
              case (Inl err)
              with Cons.prems g Returns \<open>py_in ''transit'' them_d = Inr is_transit\<close> nt io True h1
                py_getitem_not_respond [of them_d "''offer''"]
              show ?thesis by (auto simp: exec)
            next
              case (Inr offer)
              with Cons.prems g Returns \<open>py_in ''transit'' them_d = Inr is_transit\<close> nt io True
              have "try_parse_offer a e offer st1 = (out, st')" by (simp add: exec)
              with h1 show ?thesis by blast
            qed
          next
            case False
            with Cons.prems g Returns \<open>py_in ''transit'' them_d = Inr is_transit\<close> nt io
            have "out = Raises (TransferError (JStr ''expected offer, got none''))"
              and "st' = st1\<lparr>trace := trace st1 @ [LogMsg ''unrecognized message %r'' [them_d]]\<rparr>"
              by (simp_all add: exec)
            with h1 handshake_log [of st1] show ?thesis
              by (auto intro: handshake_trans)
          qed
        qed
      qed
    qed
  qed
qed

subsection \<open>What an offer does\<close>

lemma andthen_decide_destname [exec]:
  "andthen (decide_destname a mode name) f st =
     (if path_join (cwd a) (dest_choice a name) \<in> fs st
      then (Raises (RespondError (mode @ '' already exists'')),
            st\<lparr>trace := trace st @ [Msg ''Error: refusing to overwrite existing %s %s''
                                      [JStr mode, JStr (dest_choice a name)]]\<rparr>)
      else f (path_join (cwd a) (dest_choice a name)) st)"
  by (simp add: andthen_def decide_destname_def dest_choice_def Let_def emit_def raise_def
      return_def)

lemma andthen_ask_permission [exec]:
  "andthen (ask_permission a) f st =
     (if accept_file a then f () st
      else case stdin st of
        [] \<Rightarrow> (Raises EOFError, st\<lparr>trace := trace st @ [Input ''ok? (y/n): '']\<rparr>)
      | ok # rest \<Rightarrow>
          if lower_startswith_y ok
          then f () (st\<lparr>trace := trace st @ [Input ''ok? (y/n): ''], stdin := rest\<rparr>)
          else (Raises (RespondError ''transfer rejected''),
                st\<lparr>trace := trace st @ [Input ''ok? (y/n): '', Stderr ''transfer rejected''],
                   stdin := rest\<rparr>))"
  by (auto simp: andthen_def ask_permission_def input_def emit_def raise_def return_def
      split: list.splits)

lemma handle_file_cases:
  assumes "handle_file a them_d st = (r, st1)"
  shows "(\<exists>err. r = Raises err \<and>
            (quiet_until st st1 [] \<or>
             err = RespondError ''transfer rejected'' \<and>
             quiet_until st st1 [Stderr ''transfer rejected''])) \<or>
         (\<exists>d n evs. r = Returns (TmpFile (d @ ''.tmp'')) \<and> d \<notin> fs st \<and>
            list_all quiet_event evs \<and>
            trace st1 = trace st @ evs @ [OpenWb (d @ ''.tmp'')] \<and>
            fs st1 = insert (d @ ''.tmp'') (fs st) \<and>
            abs_destname st1 = Some d \<and> xfersize st1 = Some n \<and>
            transit_receiver st1 = transit_receiver st)"
  using assms
  by (auto simp: handle_file_def exec open_wb_def quiet_until_def
      split: sum.splits if_splits list.splits)

lemma handle_directory_cases:
  assumes "handle_directory a them_d st = (r, st1)"
  shows "(\<exists>err. r = Raises err \<and>
            (quiet_until st st1 [] \<or>
             err = RespondError ''transfer rejected'' \<and>
             quiet_until st st1 [Stderr ''transfer rejected''])) \<or>
         (\<exists>d n evs. r = Returns Spooled \<and> d \<notin> fs st \<and>
            list_all quiet_event evs \<and>
            trace st1 = trace st @ evs @ [SpooledTemporaryFile] \<and>
            fs st1 = fs st \<and>
            abs_destname st1 = Some d \<and> xfersize st1 = Some n \<and>
            transit_receiver st1 = transit_receiver st)"
  using assms
  by (auto simp: handle_directory_def exec quiet_until_def
      split: sum.splits if_splits list.splits)

lemma file_tail:
  assumes "abs_destname st = Some d" and "xfersize st = Some n"
  shows "andthen send_permission (\<lambda>_. andthen establish_transit (\<lambda>_.
           andthen (transfer_data e (TmpFile (d @ ''.tmp''))) (\<lambda>_.
           andthen (write_file (TmpFile (d @ ''.tmp''))) (\<lambda>_. close_transit)))) st =
         (fst (bulk e (transit_receiver st) (TmpFile (d @ ''.tmp'')) (file_written d) n),
          st\<lparr>trace := trace st @
                snd (bulk e (transit_receiver st) (TmpFile (d @ ''.tmp'')) (file_written d) n),
             fs := (if transit_receiver st \<and> received e = n
                    then insert d (fs st - {d @ ''.tmp''}) else fs st)\<rparr>)"
  using assms
  by (simp add: send_permission_def send_data_def establish_transit_def transfer_data_def
      write_file_def get_abs_destname_def rename_def close_transit_def bulk_def
      transfer_events_def dropped_events_def file_written_def exec andthen_def)

lemma directory_tail:
  assumes "abs_destname st = Some d" and "xfersize st = Some n"
  shows "andthen send_permission (\<lambda>_. andthen establish_transit (\<lambda>_.
           andthen (transfer_data e Spooled) (\<lambda>_.
           andthen (write_directory Spooled) (\<lambda>_. close_transit)))) st =
         (fst (bulk e (transit_receiver st) Spooled (directory_written d) n),
          st\<lparr>trace := trace st @
                snd (bulk e (transit_receiver st) Spooled (directory_written d) n),
             fs := (if transit_receiver st \<and> received e = n
                    then insert d (fs st) else fs st)\<rparr>)"
  using assms
  by (simp add: send_permission_def send_data_def establish_transit_def transfer_data_def
      write_directory_def get_abs_destname_def extractall_def close_transit_def bulk_def
      transfer_events_def dropped_events_def directory_written_def exec andthen_def)

lemma bulk_ok: "fst (bulk e c f w n) = Returns () \<longleftrightarrow> c \<and> received e = n"
  by (simp add: bulk_def)

lemma bulk_not_suspends: "fst (bulk e c f w n) \<noteq> Suspends"
  by (simp add: bulk_def)

lemma bulk_not_respond: "fst (bulk e c f w n) \<noteq> Raises (RespondError x)"
  by (simp add: bulk_def)

lemma andthen_cases:
  assumes "andthen m f st = (r, st')"
  obtains (raises) err where "m st = (Raises err, st')" "r = Raises err"
    | (suspends) "m st = (Suspends, st')" "r = Suspends"
    | (returns) x st1 where "m st = (Returns x, st1)" "f x st1 = (r, st')"
  using assms by (auto simp: andthen_def split: prod.splits result.splits)

lemma parse_offer_file:
  assumes "andthen (handle_file a them_d) (\<lambda>f.
             andthen send_permission (\<lambda>_. andthen establish_transit (\<lambda>_.
             andthen (transfer_data e f) (\<lambda>_.
             andthen (write_file f) (\<lambda>_. close_transit))))) st = (r, st')"
  shows "(\<exists>err. r = Raises err \<and>
            (quiet_until st st' [] \<or>
             err = RespondError ''transfer rejected'' \<and>
             quiet_until st st' [Stderr ''transfer rejected''])) \<or>
         offer_file e st st' r"
  using assms
proof (cases rule: andthen_cases)
  case (raises err)
  from handle_file_cases [OF raises(1)] raises(2) show ?thesis by simp
next
  case suspends
  from handle_file_cases [OF suspends(1)] show ?thesis by simp
next
  case (returns f st1)
  from handle_file_cases [OF returns(1)] obtain d n evs where
    f: "f = TmpFile (d @ ''.tmp'')" and d: "d \<notin> fs st" and evs: "list_all quiet_event evs"
    and tr: "trace st1 = trace st @ evs @ [OpenWb (d @ ''.tmp'')]"
    and fs1: "fs st1 = insert (d @ ''.tmp'') (fs st)"
    and ad: "abs_destname st1 = Some d" and xs: "xfersize st1 = Some n"
    and trr: "transit_receiver st1 = transit_receiver st"
    by blast
  let ?b = "bulk e (transit_receiver st) (TmpFile (d @ ''.tmp'')) (file_written d) n"
  from returns(2) have
    "(fst ?b, st1\<lparr>trace := trace st1 @ snd ?b,
        fs := (if transit_receiver st1 \<and> received e = n
               then insert d (fs st1 - {d @ ''.tmp''}) else fs st1)\<rparr>) = (r, st')"
    unfolding f file_tail [OF ad xs] trr [symmetric] by (simp only: trr)
  then have r: "r = fst ?b"
    and st': "st' = st1\<lparr>trace := trace st1 @ snd ?b,
        fs := (if transit_receiver st1 \<and> received e = n
               then insert d (fs st1 - {d @ ''.tmp''}) else fs st1)\<rparr>"
    by simp_all
  have "abs_destname st' = Some d" by (simp add: st' ad)
  moreover have "xfersize st' = Some n" by (simp add: st' xs)
  moreover have "trace st' = trace st @ evs @ [OpenWb (d @ ''.tmp'')] @ snd ?b"
    by (simp add: st' tr)
  moreover have "fs st' = (if r = Returns () then insert d (fs st - {d @ ''.tmp''})
                           else insert (d @ ''.tmp'') (fs st))"
    by (simp add: st' r bulk_ok fs1 trr)
  ultimately have "offer_file e st st' r"
    unfolding offer_file_def using d evs r by blast
  then show ?thesis ..
qed

lemma parse_offer_directory:
  assumes "andthen (handle_directory a them_d) (\<lambda>f.
             andthen send_permission (\<lambda>_. andthen establish_transit (\<lambda>_.
             andthen (transfer_data e f) (\<lambda>_.
             andthen (write_directory f) (\<lambda>_. close_transit))))) st = (r, st')"
  shows "(\<exists>err. r = Raises err \<and>
            (quiet_until st st' [] \<or>
             err = RespondError ''transfer rejected'' \<and>
             quiet_until st st' [Stderr ''transfer rejected''])) \<or>
         offer_directory e st st' r"
  using assms
proof (cases rule: andthen_cases)
  case (raises err)
  from handle_directory_cases [OF raises(1)] raises(2) show ?thesis by simp
next
  case suspends
  from handle_directory_cases [OF suspends(1)] show ?thesis by simp
next
  case (returns f st1)
  from handle_directory_cases [OF returns(1)] obtain d n evs where
    f: "f = Spooled" and d: "d \<notin> fs st" and evs: "list_all quiet_event evs"
    and tr: "trace st1 = trace st @ evs @ [SpooledTemporaryFile]"
    and fs1: "fs st1 = fs st"
    and ad: "abs_destname st1 = Some d" and xs: "xfersize st1 = Some n"
    and trr: "transit_receiver st1 = transit_receiver st"
    by blast
  let ?b = "bulk e (transit_receiver st) Spooled (directory_written d) n"
  from returns(2) have
    "(fst ?b, st1\<lparr>trace := trace st1 @ snd ?b,
        fs := (if transit_receiver st1 \<and> received e = n
               then insert d (fs st1) else fs st1)\<rparr>) = (r, st')"
    unfolding f directory_tail [OF ad xs] trr [symmetric] by (simp only: trr)
  then have r: "r = fst ?b"
    and st': "st' = st1\<lparr>trace := trace st1 @ snd ?b,
        fs := (if transit_receiver st1 \<and> received e = n
               then insert d (fs st1) else fs st1)\<rparr>"
    by simp_all
  have "abs_destname st' = Some d" by (simp add: st' ad)
  moreover have "xfersize st' = Some n" by (simp add: st' xs)
  moreover have "trace st' = trace st @ evs @ [SpooledTemporaryFile] @ snd ?b"
    by (simp add: st' tr)
  moreover have "fs st' = (if r = Returns () then insert d (fs st) else fs st)"
    by (simp add: st' r bulk_ok fs1 trr)
  ultimately have "offer_directory e st st' r"
    unfolding offer_directory_def using d evs r by blast
  then show ?thesis ..
qed

lemma quiet_until_refl: "quiet_until st st []"
  by (simp add: quiet_until_def)

lemma quiet_until_send:
  "quiet_until st st' evs \<Longrightarrow> quiet_until st (st'\<lparr>trace := trace st' @ [Send x]\<rparr>) (evs @ [Send x])"
  by (auto simp: quiet_until_def)

lemma quiet_until_send_quiet:
  "quiet_until st st' [] \<Longrightarrow> quiet_until st (st'\<lparr>trace := trace st' @ [Send x]\<rparr>) []"
  by (auto simp: quiet_until_def)

lemma handle_text_cases:
  assumes "handle_text them_d st = (r, st')"
  shows "(r = Returns () \<or> (\<exists>err. r = Raises err \<and> (\<forall>x. err \<noteq> RespondError x))) \<and>
         quiet_until st st' []"
  using assms py_getitem_not_respond [of them_d "''message''"]
  by (auto simp: handle_text_def send_data_def exec quiet_until_def split: sum.splits)

lemma unknown_offer_quiet:
  "quiet_until st (st\<lparr>trace := trace st @ [Msg f xs, Msg g ys]\<rparr>) []"
  by (simp add: quiet_until_def)

lemma parse_offer_cases:
  assumes "parse_offer a e them_d st = (r, st')"
  shows "(r = Returns () \<or> (\<exists>err. r = Raises err)) \<and> quiet_until st st' [] \<or>
         r = Raises (RespondError ''transfer rejected'') \<and>
           quiet_until st st' [Stderr ''transfer rejected''] \<or>
         offer_file e st st' r \<or> offer_directory e st st' r"
proof (cases "py_in ''message'' them_d")
  case (Inl err)
  with assms py_in_not_respond [of "''message''" them_d] show ?thesis
    by (auto simp: parse_offer_def exec quiet_until_refl)
next
  case im: (Inr is_message)
  show ?thesis
  proof (cases is_message)
    case True
    with assms im have "handle_text them_d st = (r, st')"
      by (simp add: parse_offer_def exec)
    from handle_text_cases [OF this] show ?thesis by auto
  next
    case nm: False
    show ?thesis
    proof (cases "py_in ''file'' them_d")
      case (Inl err)
      with assms im nm py_in_not_respond [of "''file''" them_d] show ?thesis
        by (auto simp: parse_offer_def exec quiet_until_refl)
    next
      case ifl: (Inr is_file)
      show ?thesis
      proof (cases is_file)
        case True
        with assms im nm ifl have
          "andthen (handle_file a them_d) (\<lambda>f.
             andthen send_permission (\<lambda>_. andthen establish_transit (\<lambda>_.
             andthen (transfer_data e f) (\<lambda>_.
             andthen (write_file f) (\<lambda>_. close_transit))))) st = (r, st')"
          by (simp add: parse_offer_def exec)
        from parse_offer_file [OF this] show ?thesis by auto
      next
        case nf: False
        show ?thesis
        proof (cases "py_in ''directory'' them_d")
          case (Inl err)
          with assms im nm ifl nf py_in_not_respond [of "''directory''" them_d] show ?thesis
            by (auto simp: parse_offer_def exec quiet_until_refl)
        next
          case idr: (Inr is_directory)
          show ?thesis
          proof (cases is_directory)
            case True
            with assms im nm ifl nf idr have
              "andthen (handle_directory a them_d) (\<lambda>f.
                 andthen send_permission (\<lambda>_. andthen establish_transit (\<lambda>_.
                 andthen (transfer_data e f) (\<lambda>_.
                 andthen (write_directory f) (\<lambda>_. close_transit))))) st = (r, st')"
              by (simp add: parse_offer_def exec)
            from parse_offer_directory [OF this] show ?thesis by auto
          next
            case False
            with assms im nm ifl nf idr have "r = Raises (RespondError ''unknown offer type'')"
              and "st' = st\<lparr>trace := trace st @
                     [Msg (''I don'' @ [CHR 0x27] @ ''t know what they'' @ [CHR 0x27]
                             @ ''re offering'' @ [CHR 0x0A]) [],
                      Msg ''Offer details: %r'' [them_d]]\<rparr>"
              by (simp_all add: parse_offer_def exec)
            then show ?thesis using unknown_offer_quiet [of st] by simp
          qed
        qed
      qed
    qed
  qed
qed

lemma offer_file_result:
  "offer_file e st st' r \<Longrightarrow> r \<noteq> Suspends \<and> (\<forall>x. r \<noteq> Raises (RespondError x))"
  by (auto simp: offer_file_def bulk_not_suspends bulk_not_respond)

lemma offer_directory_result:
  "offer_directory e st st' r \<Longrightarrow> r \<noteq> Suspends \<and> (\<forall>x. r \<noteq> Raises (RespondError x))"
  by (auto simp: offer_directory_def bulk_not_suspends bulk_not_respond)

lemma try_parse_offer_respond:
  assumes "parse_offer a e offer st = (Raises (RespondError x), st1)"
  shows "try_parse_offer a e offer st =
           (Raises (TransferError (JStr x)),
            st1\<lparr>trace := trace st1 @ [Send (JObj [(''error'', JStr x)])]\<rparr>)"
  using assms by (simp add: try_parse_offer_def send_data_def exec)

lemma try_parse_offer_other:
  assumes "parse_offer a e offer st = (r, st1)" and "\<forall>x. r \<noteq> Raises (RespondError x)"
  shows "try_parse_offer a e offer st = (r, st1)"
  using assms by (auto simp: try_parse_offer_def split: result.splits error.splits)

lemma try_parse_offer_cases:
  assumes "try_parse_offer a e offer st = (out, st')"
  shows "out \<noteq> Suspends \<and> (\<forall>x. out \<noteq> Raises (RespondError x)) \<and>
         (quiet_until st st' [] \<or>
          out = Raises (TransferError (JStr ''transfer rejected'')) \<and>
            quiet_until st st'
              [Stderr ''transfer rejected'', Send (JObj [(''error'', JStr ''transfer rejected'')])] \<or>
          offer_file e st st' out \<or> offer_directory e st st' out)"
proof -
  obtain r st1 where p: "parse_offer a e offer st = (r, st1)"
    by (cases "parse_offer a e offer st")
  note c = parse_offer_cases [OF p]
  show ?thesis
  proof (cases "\<exists>x. r = Raises (RespondError x)")
    case True
    then obtain x where r: "r = Raises (RespondError x)" ..
    from try_parse_offer_respond [OF p [unfolded r]] assms
    have out: "out = Raises (TransferError (JStr x))"
      and st': "st' = st1\<lparr>trace := trace st1 @ [Send (JObj [(''error'', JStr x)])]\<rparr>"
      by simp_all
    from c r offer_file_result [of e st st1 r] offer_directory_result [of e st st1 r]
    have "quiet_until st st1 [] \<or>
          x = ''transfer rejected'' \<and> quiet_until st st1 [Stderr ''transfer rejected'']"
      by auto
    then show ?thesis
    proof
      assume "quiet_until st st1 []"
      from quiet_until_send_quiet [OF this] out st' show ?thesis by simp
    next
      assume "x = ''transfer rejected'' \<and> quiet_until st st1 [Stderr ''transfer rejected'']"
      with quiet_until_send [of st st1 "[Stderr ''transfer rejected'']"] out st'
      show ?thesis by simp
    qed
  next
    case False
    then have nr: "\<forall>x. r \<noteq> Raises (RespondError x)" by simp
    from try_parse_offer_other [OF p nr] assms have "out = r" "st' = st1" by simp_all
    with c nr offer_file_result [of e st st1 r] offer_directory_result [of e st st1 r]
    show ?thesis by auto
  qed
qed

subsection \<open>What a session does\<close>

lemma handle_code_handshake:
  assumes "handle_code a st = (r, st')"
  shows "handshake st st' \<and> r \<noteq> Suspends \<and> (\<forall>x. r \<noteq> Raises (RespondError x))"
  using assms
  by (auto simp: handle_code_def exec handshake_def split: if_splits option.splits)

lemma w_verify_handshake:
  assumes "w_verify e st = (r, st')"
  shows "handshake st st' \<and> r \<noteq> Suspends \<and> (\<forall>x. r \<noteq> Raises (RespondError x))"
  using assms
  by (auto simp: w_verify_def exec handshake_def split: option.splits)

lemma show_verifier_handshake:
  assumes "show_verifier a v st = (r, st')"
  shows "handshake st st' \<and> r \<noteq> Suspends \<and> (\<forall>x. r \<noteq> Raises (RespondError x))"
  using assms
  by (auto simp: show_verifier_def exec handshake_def split: if_splits)

lemma go_inner_cases:
  assumes "go_inner a e gs st = (out, st')"
  shows "(handshake st st' \<and> out \<noteq> Returns () \<and> (\<forall>x. out \<noteq> Raises (RespondError x))) \<or>
         (\<exists>st1 offer. handshake st st1 \<and> try_parse_offer a e offer st1 = (out, st'))"
  using assms unfolding go_inner_def
proof (cases rule: andthen_cases)
  case (raises err)
  with handle_code_handshake [OF raises(1)] show ?thesis by simp
next
  case suspends
  with handle_code_handshake [OF suspends(1)] show ?thesis by simp
next
  case hc: (returns u st1)
  note h1 = handle_code_handshake [OF hc(1)]
  from hc(2) show ?thesis
  proof (cases rule: andthen_cases)
    case (raises err)
    with w_verify_handshake [OF raises(1)] h1 show ?thesis
      by (auto intro: handshake_trans)
  next
    case suspends
    with w_verify_handshake [OF suspends(1)] show ?thesis by simp
  next
    case wv: (returns v st2)
    note h2 = w_verify_handshake [OF wv(1)]
    from wv(2) show ?thesis
    proof (cases rule: andthen_cases)
      case (raises err)
      with show_verifier_handshake [OF raises(1)] h1 h2 show ?thesis
        by (auto intro: handshake_trans)
    next
      case suspends
      with show_verifier_handshake [OF suspends(1)] show ?thesis by simp
    next
      case sv: (returns w st3)
      note h3 = show_verifier_handshake [OF sv(1)]
      from h1 h2 h3 have h: "handshake st st3" by (blast intro: handshake_trans)
      from go_loop_cases [OF sv(2)] h show ?thesis
        by (blast intro: handshake_trans)
    qed
  qed
qed

lemma go_unfold:
  "go a e gs st =
     (case go_inner a e gs (if tor a then st\<lparr>trace := trace st @ [TorStart]\<rparr> else st) of
        (Suspends, st1) \<Rightarrow> (Suspends, st1)
      | (r, st1) \<Rightarrow> (r, st1\<lparr>trace := trace st1 @ [Close]\<rparr>))"
  by (simp add: go_def exec w_close_def split: prod.splits result.splits)

lemma handshake_tor:
  "handshake st (if tor a then st\<lparr>trace := trace st @ [TorStart]\<rparr> else st)"
  by (simp add: handshake_def)

lemma session_cases:
  assumes "go a e gs (init_state files answers) = (out, st')"
  obtains
    (suspended) "out = Suspends" and "list_all quiet_event (trace st')" and "fs st' = files"
      and "abs_destname st' = None"
  | (quiet) pre where "out \<noteq> Suspends" and "\<forall>x. out \<noteq> Raises (RespondError x)"
      and "trace st' = pre @ [Close]" and "list_all quiet_event pre" and "fs st' = files"
      and "\<forall>d. abs_destname st' = Some d \<longrightarrow> d \<notin> files"
  | (rejected) pre where "out = Raises (TransferError (JStr ''transfer rejected''))"
      and "trace st' = pre @ [Stderr ''transfer rejected'',
             Send (JObj [(''error'', JStr ''transfer rejected'')]), Close]"
      and "list_all quiet_event pre" and "fs st' = files"
      and "\<forall>d. abs_destname st' = Some d \<longrightarrow> d \<notin> files"
  | (file_offer) pre d n c where "list_all quiet_event pre" and "d \<notin> files"
      and "abs_destname st' = Some d" and "xfersize st' = Some n"
      and "out = fst (bulk e c (TmpFile (d @ ''.tmp'')) (file_written d) n)"
      and "trace st' = pre @ [OpenWb (d @ ''.tmp'')] @
             snd (bulk e c (TmpFile (d @ ''.tmp'')) (file_written d) n) @ [Close]"
      and "fs st' = (if out = Returns () then insert d (files - {d @ ''.tmp''})
                     else insert (d @ ''.tmp'') files)"
  | (directory_offer) pre d n c where "list_all quiet_event pre" and "d \<notin> files"
      and "abs_destname st' = Some d" and "xfersize st' = Some n"
      and "out = fst (bulk e c Spooled (directory_written d) n)"
      and "trace st' = pre @ [SpooledTemporaryFile] @
             snd (bulk e c Spooled (directory_written d) n) @ [Close]"
      and "fs st' = (if out = Returns () then insert d files else files)"
proof -
  let ?st0 = "if tor a then (init_state files answers)\<lparr>trace := trace (init_state files answers) @ [TorStart]\<rparr>
              else init_state files answers"
  obtain r st1 where gi: "go_inner a e gs ?st0 = (r, st1)"
    by (cases "go_inner a e gs ?st0")
  have h0: "handshake (init_state files answers) ?st0" by (rule handshake_tor)
  have end_susp: "out = Suspends \<and> st' = st1" if "r = Suspends"
    using that assms gi unfolding go_unfold by simp
  have end_close: "out = r \<and> st' = st1\<lparr>trace := trace st1 @ [Close]\<rparr>" if "r \<noteq> Suspends"
    using that assms gi unfolding go_unfold by (cases r) simp_all
  from go_inner_cases [OF gi] show ?thesis
  proof
    assume A: "handshake ?st0 st1 \<and> r \<noteq> Returns () \<and> (\<forall>x. r \<noteq> Raises (RespondError x))"
    with h0 have h: "handshake (init_state files answers) st1" by (blast intro: handshake_trans)
    then obtain evs where evs: "trace st1 = evs" "list_all quiet_event evs"
      and f: "fs st1 = files" and ad: "abs_destname st1 = None"
      by (auto simp: handshake_def init_state_def)
    show ?thesis
    proof (cases "r = Suspends")
      case True
      with end_susp evs f ad show ?thesis by (intro suspended) simp_all
    next
      case False
      with end_close A evs f ad show ?thesis by (intro quiet [of evs]) simp_all
    qed
  next
    assume "\<exists>st2 offer. handshake ?st0 st2 \<and> try_parse_offer a e offer st2 = (r, st1)"
    then obtain st2 offer where h2: "handshake ?st0 st2"
      and t: "try_parse_offer a e offer st2 = (r, st1)" by blast
    from h0 h2 have "handshake (init_state files answers) st2" by (rule handshake_trans)
    then obtain pre0 where pre0: "trace st2 = pre0" "list_all quiet_event pre0"
      and f2: "fs st2 = files" and ad2: "abs_destname st2 = None"
      by (auto simp: handshake_def init_state_def)
    note c = try_parse_offer_cases [OF t]
    then have ns: "r \<noteq> Suspends" and nr: "\<forall>x. r \<noteq> Raises (RespondError x)" by simp_all
    from end_close [OF ns] have out: "out = r"
      and st': "st' = st1\<lparr>trace := trace st1 @ [Close]\<rparr>" by simp_all
    from c consider
        (q) "quiet_until st2 st1 []"
      | (rj) "r = Raises (TransferError (JStr ''transfer rejected''))"
          "quiet_until st2 st1
             [Stderr ''transfer rejected'', Send (JObj [(''error'', JStr ''transfer rejected'')])]"
      | (fl) "offer_file e st2 st1 r"
      | (dr) "offer_directory e st2 st1 r"
      by blast
    then show ?thesis
    proof cases
      case q
      then obtain evs where "trace st1 = pre0 @ evs" "list_all quiet_event evs"
        "fs st1 = files" "\<forall>d. abs_destname st1 = Some d \<longrightarrow> d \<notin> files"
        using pre0 f2 ad2 by (auto simp: quiet_until_def)
      with out st' ns nr pre0 show ?thesis
        by (intro quiet [of "pre0 @ evs"]) simp_all
    next
      case rj
      from rj(2) obtain evs where "trace st1 = pre0 @ evs @
          [Stderr ''transfer rejected'', Send (JObj [(''error'', JStr ''transfer rejected'')])]"
        "list_all quiet_event evs"
        "fs st1 = files" "\<forall>d. abs_destname st1 = Some d \<longrightarrow> d \<notin> files"
        using pre0 f2 ad2 by (auto simp: quiet_until_def)
      with out st' rj(1) pre0 show ?thesis
        by (intro rejected [of "pre0 @ evs"]) simp_all
    next
      case fl
      then obtain d n evs where "d \<notin> files" "list_all quiet_event evs"
        "abs_destname st1 = Some d" "xfersize st1 = Some n"
        "r = fst (bulk e (transit_receiver st2) (TmpFile (d @ ''.tmp'')) (file_written d) n)"
        "trace st1 = pre0 @ evs @ [OpenWb (d @ ''.tmp'')] @
           snd (bulk e (transit_receiver st2) (TmpFile (d @ ''.tmp'')) (file_written d) n)"
        "fs st1 = (if r = Returns () then insert d (files - {d @ ''.tmp''})
                   else insert (d @ ''.tmp'') files)"
        using pre0 f2 unfolding offer_file_def by auto
      with out st' pre0 show ?thesis
        by (intro file_offer [where pre = "pre0 @ evs" and d = d and n = n and c = "transit_receiver st2"]) simp_all
    next
      case dr
      then obtain d n evs where "d \<notin> files" "list_all quiet_event evs"
        "abs_destname st1 = Some d" "xfersize st1 = Some n"
        "r = fst (bulk e (transit_receiver st2) Spooled (directory_written d) n)"
        "trace st1 = pre0 @ evs @ [SpooledTemporaryFile] @
           snd (bulk e (transit_receiver st2) Spooled (directory_written d) n)"
        "fs st1 = (if r = Returns () then insert d files else files)"
        using pre0 f2 unfolding offer_directory_def by auto
      with out st' pre0 show ?thesis
        by (intro directory_offer [where pre = "pre0 @ evs" and d = d and n = n and c = "transit_receiver st2"]) simp_all
    qed
  qed
qed

subsection \<open>Paths\<close>

lemma basename_no_slash: "CHR ''/'' \<notin> set (basename p)"
  using set_takeWhileD [of "CHR ''/''" "\<lambda>c. c \<noteq> CHR ''/''" "rev p"]
  by (auto simp: basename_def)

subsection \<open>Events of the phases\<close>

lemma quiet_not_bulk:
  assumes "list_all quiet_event evs"
  shows "WriteToFile f n \<notin> set evs" and "Rename s d \<notin> set evs" and "ExtractAll d \<notin> set evs"
    and "SendRecord x \<notin> set evs" and "PipeClose \<notin> set evs" and "Close \<notin> set evs"
    and "Connect \<notin> set evs" and "OpenWb p \<notin> set evs" and "SpooledTemporaryFile \<notin> set evs"
    and "Stderr y \<notin> set evs"
  using assms by (auto simp: list_all_iff)

subsection \<open>Four sessions, evaluated\<close>

text \<open>
  A file received in full, a file cut short after 10 of its 1024 bytes, a file the user
  refuses, a directory received in full.
\<close>

lemmas model =
  go_def go_inner_def w_close_def handle_code_def w_verify_def show_verifier_def hexlify_def
  hexdigit_def get_data_def parse_transit_def build_transit_def send_data_def APPID_def
  try_parse_offer_def parse_offer_def handle_text_def handle_file_def handle_directory_def
  decide_destname_def ask_permission_def input_def open_wb_def send_permission_def
  establish_transit_def transfer_data_def write_file_def write_directory_def
  get_abs_destname_def rename_def extractall_def close_transit_def
  andthen_def emit_def return_def raise_def lift_def
  basename_def path_join_def endswith_slash_def init_state_def
  example_args_def example_env_def example_transit_def example_file_offer_def
  example_directory_offer_def example_handshake_def


lemma example_file_dropped:
  "go example_args (example_env\<lparr>received := 10\<rparr>) [Got example_transit, Got example_file_offer]
     (init_state {} [''y'']) =
   (Raises (TransferError (JStr ''Connection dropped before full file received'')),
    \<lparr>trace = example_handshake @
       [Msg ''Receiving file (%d bytes) into: %s'' [JInt 1024, JStr ''foo.txt''],
        Input ''ok? (y/n): '', OpenWb ''/home/u/foo.txt.tmp'',
        Send (JObj [(''answer'', JObj [(''file_ack'', JStr ''ok'')])]),
        Connect, Describe, Msg ''Receiving (%s)..'' [JStr ''direct''],
        WriteToFile (TmpFile ''/home/u/foo.txt.tmp'') 1024, Msg [] [],
        Msg ''Connection dropped before full file received'' [],
        Msg ''got %d bytes, wanted %d'' [JInt 10, JInt 1024], Close],
     fs = {''/home/u/foo.txt.tmp''}, stdin = [], transit_receiver = True,
     abs_destname = Some ''/home/u/foo.txt'', xfersize = Some 1024\<rparr>)"
  by (simp add: model)

lemma example_file_refused:
  "go example_args example_env [Got example_transit, Got example_file_offer]
     (init_state {} [''n'']) =
   (Raises (TransferError (JStr ''transfer rejected'')),
    \<lparr>trace = example_handshake @
       [Msg ''Receiving file (%d bytes) into: %s'' [JInt 1024, JStr ''foo.txt''],
        Input ''ok? (y/n): '', Stderr ''transfer rejected'',
        Send (JObj [(''error'', JStr ''transfer rejected'')]), Close],
     fs = {}, stdin = [], transit_receiver = True,
     abs_destname = Some ''/home/u/foo.txt'', xfersize = Some 1024\<rparr>)"
  by (simp add: model)


section \<open>Claims\<close>





text \<open>
  C3. When \<open>parse_offer\<close> raises \<open>RespondError(x)\<close> on the offer of a message, the loop of
  \<open>_go\<close> sends \<open>{"error": x}\<close> to the peer as its last call and raises \<open>TransferError(x)\<close>;
  and no session ends with a \<open>RespondError\<close>.
\<close>

theorem respond_error_told_to_peer:
  "(py_in ''error'' m = Inr False \<longrightarrow> py_in ''transit'' m = Inr False \<longrightarrow>
    py_in ''offer'' m = Inr True \<longrightarrow> py_getitem m ''offer'' = Inr offer \<longrightarrow>
    parse_offer a e offer (st\<lparr>trace := trace st @ [Get]\<rparr>) = (Raises (RespondError x), st1) \<longrightarrow>
      go_loop a e True done (Got m # gs) st =
        (Raises (TransferError (JStr x)),
         st1\<lparr>trace := trace st1 @ [Send (JObj [(''error'', JStr x)])]\<rparr>)) \<and>
   (\<forall>y. fst (go a e gs' (init_state files answers)) \<noteq> Raises (RespondError y))"
proof (intro conjI impI allI)
  assume "py_in ''error'' m = Inr False" "py_in ''transit'' m = Inr False"
    "py_in ''offer'' m = Inr True" "py_getitem m ''offer'' = Inr offer"
    "parse_offer a e offer (st\<lparr>trace := trace st @ [Get]\<rparr>) = (Raises (RespondError x), st1)"
  then show "go_loop a e True done (Got m # gs) st =
        (Raises (TransferError (JStr x)),
         st1\<lparr>trace := trace st1 @ [Send (JObj [(''error'', JStr x)])]\<rparr>)"
    by (simp add: get_data_def exec try_parse_offer_respond)
next
  fix y
  obtain out st' where run: "go a e gs' (init_state files answers) = (out, st')"
    by (cases "go a e gs' (init_state files answers)")
  from run have "out \<noteq> Raises (RespondError y)"
    by (cases rule: session_cases) (simp_all add: bulk_not_respond)
  with run show "fst (go a e gs' (init_state files answers)) \<noteq> Raises (RespondError y)"
    by simp
qed

text \<open>
  The user answers "n" to the offer of a file; then a directory in an unknown mode, an offer
  of an unknown kind, and a file whose destination exists.
\<close>

theorem respond_error_told_to_peer_witness:
  "go_loop example_args example_env True False [Got example_file_offer]
     (init_state {} [''n'']) =
   (Raises (TransferError (JStr ''transfer rejected'')),
    \<lparr>trace =
       [Get, Msg ''Receiving file (%d bytes) into: %s'' [JInt 1024, JStr ''foo.txt''],
        Input ''ok? (y/n): '', Stderr ''transfer rejected'',
        Send (JObj [(''error'', JStr ''transfer rejected'')])],
     fs = {}, stdin = [], transit_receiver = False,
     abs_destname = Some ''/home/u/foo.txt'', xfersize = Some 1024\<rparr>) \<and>
   fst (go_loop example_args example_env True False
          [Got (JObj [(''offer'', JObj [(''directory'', JObj [(''mode'', JStr ''tar'')])])])]
          (init_state {} [])) = Raises (TransferError (JStr ''unknown mode'')) \<and>
   last (trace (snd (go_loop example_args example_env True False
          [Got (JObj [(''offer'', JObj [(''directory'', JObj [(''mode'', JStr ''tar'')])])])]
          (init_state {} [])))) = Send (JObj [(''error'', JStr ''unknown mode'')]) \<and>
   fst (go_loop example_args example_env True False
          [Got (JObj [(''offer'', JObj [(''link'', JStr ''x'')])])]
          (init_state {} [])) = Raises (TransferError (JStr ''unknown offer type'')) \<and>
   last (trace (snd (go_loop example_args example_env True False
          [Got (JObj [(''offer'', JObj [(''link'', JStr ''x'')])])]
          (init_state {} [])))) = Send (JObj [(''error'', JStr ''unknown offer type'')]) \<and>
   fst (go_loop example_args example_env True False [Got example_file_offer]
          (init_state {''/home/u/foo.txt''} [])) =
     Raises (TransferError (JStr ''file already exists'')) \<and>
   last (trace (snd (go_loop example_args example_env True False [Got example_file_offer]
          (init_state {''/home/u/foo.txt''} [])))) =
     Send (JObj [(''error'', JStr ''file already exists'')])"
  using respond_error_told_to_peer [of example_file_offer
      "JObj [(''file'', JObj [(''filename'', JStr ''dir/foo.txt''), (''filesize'', JInt 1024)])]"
      example_args example_env "init_state {} [''n'']" "''transfer rejected''"
      "\<lparr>trace =
         [Get, Msg ''Receiving file (%d bytes) into: %s'' [JInt 1024, JStr ''foo.txt''],
          Input ''ok? (y/n): '', Stderr ''transfer rejected''],
       fs = {}, stdin = [], transit_receiver = False,
       abs_destname = Some ''/home/u/foo.txt'', xfersize = Some 1024\<rparr>"
      False "[]"]
  by (simp add: model Let_def)



text \<open>
  C5. A session that ends, with a result or with an error, has called \<open>w.close\<close> exactly once,
  as its last call, and ends as \<open>_go\<close> ended: the calls before the close and the outcome are
  those of \<open>_go\<close>.
\<close>

theorem close_exactly_once:
  assumes "go a e gs (init_state files answers) = (out, st')" and "out \<noteq> Suspends"
  shows "\<exists>pre. trace st' = pre @ [Close] \<and> Close \<notin> set pre \<and>
           go_inner a e gs
             (if tor a then (init_state files answers)\<lparr>trace := [TorStart]\<rparr>
              else init_state files answers) = (out, st'\<lparr>trace := pre\<rparr>)"
proof -
  let ?st0 = "if tor a then (init_state files answers)\<lparr>trace := [TorStart]\<rparr>
              else init_state files answers"
  have st0: "?st0 = (if tor a
      then (init_state files answers)\<lparr>trace := trace (init_state files answers) @ [TorStart]\<rparr>
      else init_state files answers)"
    by (simp add: init_state_def)
  obtain r st1 where gi: "go_inner a e gs ?st0 = (r, st1)"
    by (cases "go_inner a e gs ?st0")
  from assms gi have out: "out = r" and st': "st' = st1\<lparr>trace := trace st1 @ [Close]\<rparr>"
    unfolding go_unfold st0 [symmetric] by (cases r; simp)+
  have "Close \<notin> set (trace st1)"
    using assms(1)
  proof (cases rule: session_cases)
    case suspended
    with assms(2) show ?thesis by simp
  next
    case (quiet pre)
    with st' quiet_not_bulk(6) [of pre] show ?thesis by simp
  next
    case (rejected pre)
    with st' quiet_not_bulk(6) [of pre] show ?thesis by auto
  next
    case (file_offer pre d n c)
    with st' quiet_not_bulk(6) [of pre] show ?thesis
      by (auto simp: bulk_def transfer_events_def dropped_events_def file_written_def
          split: if_splits)
  next
    case (directory_offer pre d n c)
    with st' quiet_not_bulk(6) [of pre] show ?thesis
      by (auto simp: bulk_def transfer_events_def dropped_events_def directory_written_def
          split: if_splits)
  qed
  moreover have "st'\<lparr>trace := trace st1\<rparr> = st1" by (simp add: st')
  ultimately show ?thesis using gi out st' by (intro exI [of _ "trace st1"]) simp
qed

text \<open>
  The transfer cut short: one close, at the end, and the error of \<open>_go\<close>.
\<close>

theorem close_exactly_once_witness:
  "last (trace (snd (go example_args (example_env\<lparr>received := 10\<rparr>)
                       [Got example_transit, Got example_file_offer] (init_state {} [''y''])))) =
     Close \<and>
   count_list (trace (snd (go example_args (example_env\<lparr>received := 10\<rparr>)
                             [Got example_transit, Got example_file_offer]
                             (init_state {} [''y''])))) Close = 1 \<and>
   fst (go_inner example_args (example_env\<lparr>received := 10\<rparr>)
          [Got example_transit, Got example_file_offer] (init_state {} [''y''])) =
     Raises (TransferError (JStr ''Connection dropped before full file received''))"
proof -
  let ?e = "example_env\<lparr>received := 10\<rparr>"
  let ?gs = "[Got example_transit, Got example_file_offer]"
  let ?out = "Raises (TransferError (JStr ''Connection dropped before full file received''))"
  have nt: "\<not> tor example_args" by (simp add: example_args_def)
  obtain st' where run: "go example_args ?e ?gs (init_state {} [''y'']) = (?out, st')"
    using example_file_dropped by blast
  from close_exactly_once [OF run] nt obtain pre where
    "trace st' = pre @ [Close]" and "Close \<notin> set pre"
    and "go_inner example_args ?e ?gs (init_state {} [''y'']) = (?out, st'\<lparr>trace := pre\<rparr>)"
    by auto
  then show ?thesis using run by (simp add: count_list_0_iff)
qed

text \<open>
  C7, as stated, fails when an override is configured: the destination is then not the
  stripped name of the peer joined under the working directory.
\<close>

theorem destname_override_counterexample:
  "fst (decide_destname (example_args\<lparr>output_file := Some ''out.bin''\<rparr>) ''file''
          ''dir/foo.txt'' (init_state {} []))
     \<noteq> Returns (path_join (cwd example_args) (basename ''dir/foo.txt''))"
  by (simp add: decide_destname_def example_args_def init_state_def path_join_def
      basename_def endswith_slash_def exec)

text \<open>
  C7, amended. When no output-file override is configured, destination resolution strips the
  name the peer proposed to its final path component, which holds no directory separator, and
  joins it under the working directory. With or without an override, resolution never
  changes the file system, it returns a path only if that path does not exist, and otherwise
  it fails with the responder-error "<mode> already exists".
\<close>

theorem destname_resolution:
  "(\<not> truthy (output_file a) \<longrightarrow>
      decide_destname a mode name st =
        (if path_join (cwd a) (basename name) \<in> fs st
         then (Raises (RespondError (mode @ '' already exists'')),
               st\<lparr>trace := trace st @
                 [Msg ''Error: refusing to overwrite existing %s %s''
                    [JStr mode, JStr (basename name)]]\<rparr>)
         else (Returns (path_join (cwd a) (basename name)), st))
      \<and> CHR ''/'' \<notin> set (basename name))
   \<and> fs (snd (decide_destname a mode name st)) = fs st
   \<and> (\<forall>d. fst (decide_destname a mode name st) = Returns d \<longrightarrow> d \<notin> fs st)
   \<and> (fst (decide_destname a mode name st) = Raises (RespondError (mode @ '' already exists''))
      \<or> (\<exists>d. fst (decide_destname a mode name st) = Returns d))"
  by (cases "output_file a")
    (auto simp: decide_destname_def basename_no_slash exec Let_def)

text \<open>
  A name with parent-directory components lands in the working directory; a name whose
  destination exists is refused and the file system is as it was.
\<close>

theorem destname_resolution_witness:
  "decide_destname example_args ''file'' ''../../.ssh/authorized_keys'' (init_state {} []) =
     (Returns ''/home/u/authorized_keys'', init_state {} [])
   \<and> fst (decide_destname example_args ''file'' ''dir/foo.txt''
            (init_state {''/home/u/foo.txt''} [])) = Raises (RespondError ''file already exists'')
   \<and> fs (snd (decide_destname example_args ''file'' ''dir/foo.txt''
            (init_state {''/home/u/foo.txt''} []))) = {''/home/u/foo.txt''}"
  using destname_resolution [of example_args "''file''" "''../../.ssh/authorized_keys''" "init_state {} []"]
    destname_resolution [of example_args "''file''" "''dir/foo.txt''" "init_state {''/home/u/foo.txt''} []"]
  by (simp add: example_args_def init_state_def path_join_def basename_def endswith_slash_def)

text \<open>
  C8, as stated, fails on an answer that is neither a yes nor a no: after "maybe" the gate
  does not ask again, it rejects, and the "y" that follows is never read.
\<close>

theorem permission_gate_counterexample:
  "ask_permission example_args (init_state {} [''maybe'', ''y'']) =
     (Raises (RespondError ''transfer rejected''),
      \<lparr>trace = [Input ''ok? (y/n): '', Stderr ''transfer rejected''], fs = {},
       stdin = [''y''], transit_receiver = False, abs_destname = None, xfersize = None\<rparr>)"
  by (simp add: model)

text \<open>
  C8, amended. The permission gate grants at once, without a prompt, when auto-accept is
  configured. Otherwise it prompts once: an answer that begins with \<open>y\<close> or \<open>Y\<close> grants, and
  any other answer raises the responder-error "transfer rejected". A session in which that
  rejection was printed fails with "transfer rejected", has sent the error to the peer, has
  neither connected the transit nor opened a temporary file, and leaves the file system as it
  was.
\<close>

theorem permission_gate:
  "(accept_file a \<longrightarrow> ask_permission a st = (Returns (), st)) \<and>
   (\<not> accept_file a \<longrightarrow> stdin st = ok # rest \<longrightarrow>
      ask_permission a st =
        (if lower_startswith_y ok
         then (Returns (), st\<lparr>trace := trace st @ [Input ''ok? (y/n): ''], stdin := rest\<rparr>)
         else (Raises (RespondError ''transfer rejected''),
               st\<lparr>trace := trace st @ [Input ''ok? (y/n): '', Stderr ''transfer rejected''],
                  stdin := rest\<rparr>))) \<and>
   (go a e gs (init_state files answers) = (out, st') \<longrightarrow>
    Stderr ''transfer rejected'' \<in> set (trace st') \<longrightarrow>
      out = Raises (TransferError (JStr ''transfer rejected'')) \<and>
      Send (JObj [(''error'', JStr ''transfer rejected'')]) \<in> set (trace st') \<and>
      Connect \<notin> set (trace st') \<and> (\<forall>p. OpenWb p \<notin> set (trace st')) \<and>
      SpooledTemporaryFile \<notin> set (trace st') \<and> fs st' = files)"
proof (intro conjI impI)
  assume "accept_file a"
  then show "ask_permission a st = (Returns (), st)"
    by (simp add: ask_permission_def return_def)
next
  assume "\<not> accept_file a" "stdin st = ok # rest"
  then show "ask_permission a st =
        (if lower_startswith_y ok
         then (Returns (), st\<lparr>trace := trace st @ [Input ''ok? (y/n): ''], stdin := rest\<rparr>)
         else (Raises (RespondError ''transfer rejected''),
               st\<lparr>trace := trace st @ [Input ''ok? (y/n): '', Stderr ''transfer rejected''],
                  stdin := rest\<rparr>))"
    by (simp add: ask_permission_def input_def andthen_def emit_def return_def raise_def)
next
  assume run: "go a e gs (init_state files answers) = (out, st')"
    and rej: "Stderr ''transfer rejected'' \<in> set (trace st')"
  from run have "out = Raises (TransferError (JStr ''transfer rejected'')) \<and>
      Send (JObj [(''error'', JStr ''transfer rejected'')]) \<in> set (trace st') \<and>
      Connect \<notin> set (trace st') \<and> (\<forall>p. OpenWb p \<notin> set (trace st')) \<and>
      SpooledTemporaryFile \<notin> set (trace st') \<and> fs st' = files"
  proof (cases rule: session_cases)
    case suspended
    with rej quiet_not_bulk(10) show ?thesis by blast
  next
    case (quiet pre)
    with rej quiet_not_bulk(10) [of pre] show ?thesis by auto
  next
    case (rejected pre)
    with quiet_not_bulk [of pre] show ?thesis by simp
  next
    case (file_offer pre d n c)
    with rej quiet_not_bulk(10) [of pre] show ?thesis
      by (auto simp: bulk_def transfer_events_def dropped_events_def file_written_def
          split: if_splits)
  next
    case (directory_offer pre d n c)
    with rej quiet_not_bulk(10) [of pre] show ?thesis
      by (auto simp: bulk_def transfer_events_def dropped_events_def directory_written_def
          split: if_splits)
  qed
  then show "out = Raises (TransferError (JStr ''transfer rejected''))"
    and "Send (JObj [(''error'', JStr ''transfer rejected'')]) \<in> set (trace st')"
    and "Connect \<notin> set (trace st')" and "\<forall>p. OpenWb p \<notin> set (trace st')"
    and "SpooledTemporaryFile \<notin> set (trace st')" and "fs st' = files"
    by simp_all
qed

text \<open>
  Auto-accept, the answer "Yes", the empty answer, and the session of the refused file.
\<close>

theorem permission_gate_witness:
  "ask_permission (example_args\<lparr>accept_file := True\<rparr>) (init_state {} []) =
     (Returns (), init_state {} []) \<and>
   fst (ask_permission example_args (init_state {} [''Yes''])) = Returns () \<and>
   fst (ask_permission example_args (init_state {} [[]])) =
     Raises (RespondError ''transfer rejected'') \<and>
   fs (snd (go example_args example_env [Got example_transit, Got example_file_offer]
              (init_state {} [''n'']))) = {}"
proof -
  let ?go = "go example_args example_env [Got example_transit, Got example_file_offer]
               (init_state {} [''n''])"
  have yes: "accept_file (example_args\<lparr>accept_file := True\<rparr>)" by simp
  have no: "\<not> accept_file example_args" by (simp add: example_args_def)
  have s1: "stdin (init_state {} [''Yes'']) = [''Yes'']"
    and s2: "stdin (init_state {} [[]]) = [[]]"
    by (simp_all add: init_state_def)
  from permission_gate [of "example_args\<lparr>accept_file := True\<rparr>" "init_state {} []"] yes
  have c1: "ask_permission (example_args\<lparr>accept_file := True\<rparr>) (init_state {} []) =
              (Returns (), init_state {} [])"
    by blast
  from permission_gate [of example_args "init_state {} [''Yes'']" "''Yes''" "[]"] no s1
  have c2: "fst (ask_permission example_args (init_state {} [''Yes''])) = Returns ()"
    by simp
  from permission_gate [of example_args "init_state {} [[]]" "[]" "[]"] no s2
  have c3: "fst (ask_permission example_args (init_state {} [[]])) =
              Raises (RespondError ''transfer rejected'')"
    by simp
  have "Stderr ''transfer rejected'' \<in> set (trace (snd ?go))"
    by (simp add: example_file_refused)
  with permission_gate [of example_args _ _ _ example_env
      "[Got example_transit, Got example_file_offer]" "{}" "[''n'']" "fst ?go" "snd ?go"]
  have c4: "fs (snd ?go) = {}" by simp
  from c1 c2 c3 c4 show ?thesis by simp
qed



text \<open>
  C10. With an output-file override configured, the destination is the join of the working
  directory with the override as it was given: the peer's name plays no part, an override
  that starts with a slash is the destination itself, and any other override, directory
  separators included, is appended to the working directory unchanged.
\<close>

theorem override_used_verbatim:
  assumes "output_file a = Some out" and "out \<noteq> []"
  shows "decide_destname a mode destname st =
           (if path_join (cwd a) out \<in> fs st
            then (Raises (RespondError (mode @ '' already exists'')),
                  st\<lparr>trace := trace st @
                    [Msg ''Error: refusing to overwrite existing %s %s'' [JStr mode, JStr out]]\<rparr>)
            else (Returns (path_join (cwd a) out), st))
         \<and> (startswith_slash out \<longrightarrow> path_join (cwd a) out = out)
         \<and> (\<not> startswith_slash out \<longrightarrow>
              path_join (cwd a) out =
                cwd a @ (if cwd a = [] \<or> endswith_slash (cwd a) then [] else ''/'') @ out)"
  using assms by (simp add: decide_destname_def path_join_def exec)

text \<open>
  An absolute override and one that climbs out of the working directory.
\<close>

theorem override_used_verbatim_witness:
  "decide_destname (example_args\<lparr>output_file := Some ''/etc/cron.d/job''\<rparr>) ''file''
     ''notes.txt'' (init_state {} []) = (Returns ''/etc/cron.d/job'', init_state {} [])
   \<and> decide_destname (example_args\<lparr>output_file := Some ''../../evil''\<rparr>) ''file''
     ''notes.txt'' (init_state {} []) = (Returns ''/home/u/../../evil'', init_state {} [])"
  using override_used_verbatim [of "example_args\<lparr>output_file := Some ''/etc/cron.d/job''\<rparr>"
      "''/etc/cron.d/job''" "''file''" "''notes.txt''" "init_state {} []"]
    override_used_verbatim [of "example_args\<lparr>output_file := Some ''../../evil''\<rparr>"
      "''../../evil''" "''file''" "''notes.txt''" "init_state {} []"]
  by (simp add: example_args_def init_state_def endswith_slash_def)

end
